theory Spec2Isabelle
  imports Main "HOL-Library.Sublist" "HOL-Library.Multiset" "HOL-Library.Word"
begin

section \<open>Statuses\<close>

text \<open>
  The error codes of \<^verbatim>\<open>absl::Status\<close> (the same set is used by
  \<^verbatim>\<open>tensorflow::Status\<close>). A status is either OK, which carries no message, or an
  error with a code and a message. \<^verbatim>\<open>StatusOr<T>\<close> holds either an error (code and
  message) or a value.
\<close>

datatype StatusCode =
    kCancelled | kUnknown | kInvalidArgument | kDeadlineExceeded | kNotFound
  | kAlreadyExists | kPermissionDenied | kResourceExhausted | kFailedPrecondition
  | kAborted | kOutOfRange | kUnimplemented | kInternal | kUnavailable | kDataLoss
  | kUnauthenticated

datatype Status = OkStatus | Error StatusCode string

type_synonym 'a StatusOr = "(StatusCode \<times> string) + 'a"

fun ok :: "Status \<Rightarrow> bool" where
  "ok OkStatus = True"
| "ok (Error c m) = False"

fun error_message :: "Status \<Rightarrow> string" where
  "error_message OkStatus = []"
| "error_message (Error c m) = m"

fun Status_of :: "StatusCode \<times> string \<Rightarrow> Status" where
  "Status_of (c, m) = Error c m"

definition UnimplementedError :: "string \<Rightarrow> Status" where
  "UnimplementedError m = Error kUnimplemented m"

definition InvalidArgumentError :: "string \<Rightarrow> Status" where
  "InvalidArgumentError m = Error kInvalidArgument m"

definition InternalError :: "string \<Rightarrow> Status" where
  "InternalError m = Error kInternal m"

text \<open>
  The conversion of a status to a \<^verbatim>\<open>StatusOr<T>\<close> when a function that returns the
  latter returns a status. An OK status is not a valid argument and becomes an internal
  error.
\<close>

fun StatusOr_of :: "Status \<Rightarrow> 'a StatusOr" where
  "StatusOr_of (Error c m) = Inl (c, m)"
| "StatusOr_of OkStatus =
     Inl (kInternal, ''An OK status is not a valid constructor argument to StatusOr<T>'')"

text \<open>\<^verbatim>\<open>Status::Update\<close>: the first error is kept.\<close>

fun Update :: "Status \<Rightarrow> Status \<Rightarrow> Status" where
  "Update OkStatus new = new"
| "Update (Error c m) new = Error c m"

text \<open>The class of a status, as \<^verbatim>\<open>absl::IsInternal\<close> reports it.\<close>

fun has_code :: "StatusCode \<Rightarrow> Status \<Rightarrow> bool" where
  "has_code k OkStatus = False"
| "has_code k (Error c m) = (c = k)"

definition IsInternal :: "Status \<Rightarrow> bool" where
  "IsInternal st = has_code kInternal st"

section \<open>Value messages\<close>

text \<open>
  A \<^verbatim>\<open>v0::Value\<close> message, by its \<^verbatim>\<open>value_case()\<close>. Type \<open>'p\<close> is the payload of
  the tensor case, which only the codec reads. An element of a struct has a value
  (\<^verbatim>\<open>el.value()\<close>, \<^verbatim>\<open>mutable_value()\<close>); \<open>'x\<close> stands for whatever else an element
  carries, which this file never reads or writes. The payloads of the other cases are
  never read and are left out.
\<close>

datatype ('p, 'x) v0_Value =
    VALUE_NOT_SET
  | kTensor 'p
  | kStruct "('x \<times> ('p, 'x) v0_Value) list"
  | kComputation
  | kSequence
  | kFederated

text \<open>
  \<^verbatim>\<open>mutable_struct_()\<close>: the elements already in the message when its case is struct;
  otherwise the message is cleared and becomes an empty struct.
\<close>

fun mutable_struct :: "('p, 'x) v0_Value \<Rightarrow> ('x \<times> ('p, 'x) v0_Value) list" where
  "mutable_struct (kStruct es) = es"
| "mutable_struct v = []"

text \<open>
  A pointer \<^verbatim>\<open>v0::Value*\<close> into the output message is the path of element indices
  from the root of the message to the pointee. \<open>get_at\<close> reads the pointee, \<open>put_at\<close>
  overwrites it.
\<close>

type_synonym addr = "nat list"

fun get_at :: "addr \<Rightarrow> ('p, 'x) v0_Value \<Rightarrow> ('p, 'x) v0_Value" where
  "get_at [] v = v"
| "get_at (i # p) (kStruct es) = (if i < length es then get_at p (snd (es ! i)) else VALUE_NOT_SET)"
| "get_at (i # p) v = VALUE_NOT_SET"

fun put_at :: "addr \<Rightarrow> ('p, 'x) v0_Value \<Rightarrow> ('p, 'x) v0_Value \<Rightarrow> ('p, 'x) v0_Value" where
  "put_at [] x v = x"
| "put_at (i # p) x (kStruct es) =
     (if i < length es then kStruct (es[i := (fst (es ! i), put_at p x (snd (es ! i)))])
      else kStruct es)"
| "put_at (i # p) x v = v"

section \<open>Values embedded in the executor\<close>

datatype ('g, 'd) ServiceTensor = ServiceTensor (global_data: 'g) (dtype: 'd)

text \<open>
  \<^verbatim>\<open>XLAExecutorValue\<close> wraps an \<^verbatim>\<open>absl::variant\<close> of a shared tensor and a vector of
  values. \<open>valueless\<close> is the state of a variant that holds neither alternative; it is
  what the last branch of \<^verbatim>\<open>type()\<close> answers for.
\<close>

datatype ('g, 'd) XLAExecutorValue =
    holds_tensor "('g, 'd) ServiceTensor"
  | holds_vector "('g, 'd) XLAExecutorValue list"
  | valueless

datatype ValueType = TENSOR | STRUCT | UNIMPLEMENTED

text \<open>The two public constructors; the default constructor is deleted.\<close>

definition XLAExecutorValue_tensor :: "'g \<Rightarrow> 'd \<Rightarrow> ('g, 'd) XLAExecutorValue" where
  "XLAExecutorValue_tensor g d = holds_tensor (ServiceTensor g d)"

definition XLAExecutorValue_struct ::
  "('g, 'd) XLAExecutorValue list \<Rightarrow> ('g, 'd) XLAExecutorValue" where
  "XLAExecutorValue_struct value_vector = holds_vector value_vector"

fun type :: "('g, 'd) XLAExecutorValue \<Rightarrow> ValueType" where
  "type (holds_tensor t) = TENSOR"
| "type (holds_vector vs) = STRUCT"
| "type valueless = UNIMPLEMENTED"

type_synonym ('g, 'd) ValueFuture = "('g, 'd) XLAExecutorValue StatusOr"

section \<open>External collaborators\<close>

text \<open>
  The codec, the conversions between host tensors and literals, and the XLA client are
  not part of this file; they are parameters. \<open>'h\<close> is a host tensor, \<open>'l\<close> a literal,
  \<open>'g\<close> a handle to an allocation in the service, \<open>'d\<close> a dtype, \<open>'s\<close> the state of the
  service. \<^verbatim>\<open>TransferToServer\<close> may change the service; \<^verbatim>\<open>Transfer\<close> reads it.
  A function with an output parameter returns its status together with the new content
  of the parameter. \<open>add_element\<close> is what a freshly added struct element carries besides
  its (unset) value. \<open>StrCat_ValueType\<close> is how \<^verbatim>\<open>absl::StrCat\<close> renders a
  \<^verbatim>\<open>ValueType\<close>.
\<close>

record ('p, 'x, 'h, 'd, 'l, 'g, 's) externals =
  DeserializeTensorValue :: "('p, 'x) v0_Value \<Rightarrow> 'h StatusOr"
  tensor_dtype :: "'h \<Rightarrow> 'd"
  HostTensorToBorrowingLiteral :: "'h \<Rightarrow> Status \<times> 'l"
  TransferToServer :: "'l \<Rightarrow> 's \<Rightarrow> 'g StatusOr \<times> 's"
  Transfer :: "'g \<Rightarrow> 's \<Rightarrow> 'l StatusOr"
  LiteralToHostTensor :: "'l \<Rightarrow> 'd \<Rightarrow> Status \<times> 'h"
  SerializeTensorValue :: "'h \<Rightarrow> ('p, 'x) v0_Value \<Rightarrow> Status \<times> ('p, 'x) v0_Value"
  add_element :: "'x"
  StrCat_ValueType :: "ValueType \<Rightarrow> string"

text \<open>
  What the executor acts on: the service behind \<^verbatim>\<open>xla_client_\<close> and the number of
  asynchronous units handed to \<^verbatim>\<open>ThreadRun\<close> so far.
\<close>

record 's world =
  service :: 's
  thread_runs :: nat

text \<open>
  Modelled from the spec: \<^verbatim>\<open>ThreadRun\<close> and \<^verbatim>\<open>Wait\<close> of threading.h, which is not in
  this file. A future is resolved exactly once by the unit that computes it and every
  waiter reads the same result, so a future is its resolved result; the unit is run to
  completion on the service and counted as scheduled.
\<close>

definition ThreadRun :: "('s \<Rightarrow> 'a \<times> 's) \<Rightarrow> 's world \<Rightarrow> 'a \<times> 's world" where
  "ThreadRun unit w =
     (case unit (service w) of
        (result, svc) \<Rightarrow> (result, w\<lparr>service := svc, thread_runs := Suc (thread_runs w)\<rparr>))"

definition Wait :: "'a StatusOr \<Rightarrow> 'a StatusOr" where
  "Wait future = future"

section \<open>Value construction\<close>

definition EmbedTensorValue ::
  "('p, 'x, 'h, 'd, 'l, 'g, 's) externals \<Rightarrow> ('p, 'x) v0_Value \<Rightarrow> 's
   \<Rightarrow> ('g, 'd) XLAExecutorValue StatusOr \<times> 's" where
  "EmbedTensorValue ext value_pb svc =
     (case DeserializeTensorValue ext value_pb of
        Inl e \<Rightarrow> (Inl e, svc)
      | Inr t \<Rightarrow>
          (case HostTensorToBorrowingLiteral ext t of
             (to_literal_status, tensor_literal) \<Rightarrow>
               if \<not> ok to_literal_status then
                 (StatusOr_of (InvalidArgumentError
                    (''Failed to convert v0::Value proto to XLA literal. Message: ''
                       @ error_message to_literal_status)), svc)
               else
                 (case TransferToServer ext tensor_literal svc of
                    (Inr data_in_server, svc') \<Rightarrow>
                      (Inr (XLAExecutorValue_tensor data_in_server (tensor_dtype ext t)), svc')
                  | (Inl e, svc') \<Rightarrow>
                      (StatusOr_of (InvalidArgumentError
                         (''Failed to transfer XLA literal to local server. Message: ''
                            @ error_message to_literal_status)), svc'))))"

text \<open>
  \<open>CreateValueAny\<close> and the loop of its struct case. The loop carries the vector
  \<open>values\<close> built so far; \<^verbatim>\<open>TFF_TRY\<close> leaves the function at the first failing child.
\<close>

fun CreateValueAny ::
  "('p, 'x, 'h, 'd, 'l, 'g, 's) externals \<Rightarrow> ('p, 'x) v0_Value \<Rightarrow> 's
   \<Rightarrow> ('g, 'd) XLAExecutorValue StatusOr \<times> 's"
and CreateValueAny_elements ::
  "('p, 'x, 'h, 'd, 'l, 'g, 's) externals \<Rightarrow> ('x \<times> ('p, 'x) v0_Value) list
   \<Rightarrow> ('g, 'd) XLAExecutorValue list \<Rightarrow> 's
   \<Rightarrow> ('g, 'd) XLAExecutorValue StatusOr \<times> 's" where
  "CreateValueAny ext (kTensor p) svc = EmbedTensorValue ext (kTensor p) svc"
| "CreateValueAny ext (kStruct els) svc = CreateValueAny_elements ext els [] svc"
| "CreateValueAny ext VALUE_NOT_SET svc = (StatusOr_of (UnimplementedError ''Not implemented yet''), svc)"
| "CreateValueAny ext kComputation svc = (StatusOr_of (UnimplementedError ''Not implemented yet''), svc)"
| "CreateValueAny ext kSequence svc = (StatusOr_of (UnimplementedError ''Not implemented yet''), svc)"
| "CreateValueAny ext kFederated svc = (StatusOr_of (UnimplementedError ''Not implemented yet''), svc)"
| "CreateValueAny_elements ext [] values svc = (Inr (XLAExecutorValue_struct values), svc)"
| "CreateValueAny_elements ext (el # els) values svc =
     (case CreateValueAny ext (snd el) svc of
        (Inl e, svc') \<Rightarrow> (Inl e, svc')
      | (Inr v, svc') \<Rightarrow> CreateValueAny_elements ext els (values @ [v]) svc')"

definition CreateExecutorValue ::
  "('p, 'x, 'h, 'd, 'l, 'g, 's) externals \<Rightarrow> ('p, 'x) v0_Value \<Rightarrow> 's world
   \<Rightarrow> ('g, 'd) ValueFuture StatusOr \<times> 's world" where
  "CreateExecutorValue ext value_pb w =
     (case ThreadRun (CreateValueAny ext value_pb) w of (future, w') \<Rightarrow> (Inr future, w'))"

section \<open>Unsupported operations\<close>

definition CreateCall ::
  "('g, 'd) ValueFuture \<Rightarrow> ('g, 'd) ValueFuture option \<Rightarrow> 's world
   \<Rightarrow> ('g, 'd) ValueFuture StatusOr \<times> 's world" where
  "CreateCall fn arg w = (StatusOr_of (UnimplementedError ''Not implemented yet''), w)"

definition CreateStruct ::
  "('g, 'd) ValueFuture list \<Rightarrow> 's world \<Rightarrow> ('g, 'd) ValueFuture StatusOr \<times> 's world" where
  "CreateStruct members w = (StatusOr_of (UnimplementedError ''Not implemented yet''), w)"

definition CreateSelection ::
  "('g, 'd) ValueFuture \<Rightarrow> 32 word \<Rightarrow> 's world
   \<Rightarrow> ('g, 'd) ValueFuture StatusOr \<times> 's world" where
  "CreateSelection v index w = (StatusOr_of (UnimplementedError ''Not implemented yet''), w)"

section \<open>Materialization\<close>

text \<open>
  Modelled from the spec: \<^verbatim>\<open>ParallelTasks\<close> of threading.h, which is not in this
  file. The group is the list of the registered units, in registration order;
  \<open>add_task\<close> registers one more. The join runs every registered unit and reports the
  first failure in the order in which the units complete. That order is not fixed: it
  is the permutation of the registered units that \<open>sched\<close> encodes, each number being
  the position at which the next unit is inserted among the later ones.

  A unit registered by \<open>MaterializeXLAValue\<close> is the closure of its tensor branch: the
  tensor it captured and the pointer \<^verbatim>\<open>value_pb\<close> it writes through.
\<close>

type_synonym ('g, 'd) task = "('g, 'd) ServiceTensor \<times> addr"

definition add_task :: "('g, 'd) task list \<Rightarrow> ('g, 'd) task \<Rightarrow> ('g, 'd) task list" where
  "add_task tasks t = tasks @ [t]"

fun insert_at :: "nat \<Rightarrow> 'a \<Rightarrow> 'a list \<Rightarrow> 'a list" where
  "insert_at 0 x ys = x # ys"
| "insert_at (Suc n) x [] = [x]"
| "insert_at (Suc n) x (y # ys) = y # insert_at n x ys"

fun completion_order :: "nat list \<Rightarrow> 'a list \<Rightarrow> 'a list" where
  "completion_order sched [] = []"
| "completion_order [] (t # ts) = t # completion_order [] ts"
| "completion_order (c # sched) (t # ts) = insert_at c t (completion_order sched ts)"

text \<open>
  The body of the closure registered in the tensor branch, on the content of the slot
  \<^verbatim>\<open>value_pb\<close> points to.
\<close>

definition transfer_back ::
  "('p, 'x, 'h, 'd, 'l, 'g, 's) externals \<Rightarrow> 's \<Rightarrow> ('g, 'd) ServiceTensor
   \<Rightarrow> ('p, 'x) v0_Value \<Rightarrow> Status \<times> ('p, 'x) v0_Value" where
  "transfer_back ext svc tensor_in_service value_pb =
     (case Transfer ext (global_data tensor_in_service) svc of
        Inl e \<Rightarrow>
          (InternalError
             (''Error transferring tensor from XLA service to host. Message: ''
                @ error_message (Status_of e)), value_pb)
      | Inr result_literal \<Rightarrow>
          (case LiteralToHostTensor ext result_literal (dtype tensor_in_service) of
             (tensor_conversion, tensor_out) \<Rightarrow>
               if \<not> ok tensor_conversion then
                 (InternalError
                    (''Error converting XLA literal to tensor. Message: ''
                       @ error_message tensor_conversion), value_pb)
               else
                 (case SerializeTensorValue ext tensor_out value_pb of
                    (st, value_pb') \<Rightarrow>
                      if \<not> ok st then (st, value_pb') else (OkStatus, value_pb'))))"

definition run_task ::
  "('p, 'x, 'h, 'd, 'l, 'g, 's) externals \<Rightarrow> 's \<Rightarrow> ('g, 'd) task
   \<Rightarrow> ('p, 'x) v0_Value \<Rightarrow> Status \<times> ('p, 'x) v0_Value" where
  "run_task ext svc t root =
     (case transfer_back ext svc (fst t) (get_at (snd t) root) of
        (st, value_pb') \<Rightarrow> (st, put_at (snd t) value_pb' root))"

fun run_tasks ::
  "('p, 'x, 'h, 'd, 'l, 'g, 's) externals \<Rightarrow> 's \<Rightarrow> ('g, 'd) task list
   \<Rightarrow> Status \<Rightarrow> ('p, 'x) v0_Value \<Rightarrow> Status \<times> ('p, 'x) v0_Value" where
  "run_tasks ext svc [] acc root = (acc, root)"
| "run_tasks ext svc (t # ts) acc root =
     (case run_task ext svc t root of
        (st, root') \<Rightarrow> run_tasks ext svc ts (Update acc st) root')"

definition WaitAll ::
  "('p, 'x, 'h, 'd, 'l, 'g, 's) externals \<Rightarrow> 's \<Rightarrow> nat list \<Rightarrow> ('g, 'd) task list
   \<Rightarrow> ('p, 'x) v0_Value \<Rightarrow> Status \<times> ('p, 'x) v0_Value" where
  "WaitAll ext svc sched tasks root =
     run_tasks ext svc (completion_order sched tasks) OkStatus root"

text \<open>
  \<open>MaterializeXLAValue\<close> and the loop of its struct case. The pointer \<^verbatim>\<open>value_pb\<close> is
  the address \<open>addr\<close> together with the content of the slot at that address, which the
  function returns updated. The loop carries the elements of the struct written so far;
  \<^verbatim>\<open>add_element()->mutable_value()\<close> is the unset value of a new last element, whose
  address ends in the index of that element.
\<close>

fun MaterializeXLAValue ::
  "('p, 'x, 'h, 'd, 'l, 'g, 's) externals \<Rightarrow> ('g, 'd) XLAExecutorValue \<Rightarrow> addr
   \<Rightarrow> ('p, 'x) v0_Value \<Rightarrow> ('g, 'd) task list
   \<Rightarrow> Status \<times> ('p, 'x) v0_Value \<times> ('g, 'd) task list"
and MaterializeXLAValue_elements ::
  "('p, 'x, 'h, 'd, 'l, 'g, 's) externals \<Rightarrow> ('g, 'd) XLAExecutorValue list \<Rightarrow> addr
   \<Rightarrow> ('x \<times> ('p, 'x) v0_Value) list \<Rightarrow> ('g, 'd) task list
   \<Rightarrow> Status \<times> ('p, 'x) v0_Value \<times> ('g, 'd) task list" where
  "MaterializeXLAValue ext (holds_tensor tensor_in_service) addr value_pb tasks =
     (OkStatus, value_pb, add_task tasks (tensor_in_service, addr))"
| "MaterializeXLAValue ext (holds_vector structure) addr value_pb tasks =
     MaterializeXLAValue_elements ext structure addr (mutable_struct value_pb) tasks"
| "MaterializeXLAValue ext valueless addr value_pb tasks =
     (UnimplementedError
        (''Can only materialize tensors and structures of tensors from XLA ''
           @ ''executor; attempted to materialize a value of type: ''
           @ StrCat_ValueType ext (type (valueless :: ('g, 'd) XLAExecutorValue))), value_pb, tasks)"
| "MaterializeXLAValue_elements ext [] addr elements tasks = (OkStatus, kStruct elements, tasks)"
| "MaterializeXLAValue_elements ext (el # els) addr elements tasks =
     (case MaterializeXLAValue ext el (addr @ [length elements]) VALUE_NOT_SET tasks of
        (st, value, tasks') \<Rightarrow>
          if \<not> ok st then (st, kStruct (elements @ [(add_element ext, value)]), tasks')
          else MaterializeXLAValue_elements ext els addr
                 (elements @ [(add_element ext, value)]) tasks')"

definition Materialize ::
  "('p, 'x, 'h, 'd, 'l, 'g, 's) externals \<Rightarrow> nat list \<Rightarrow> ('g, 'd) ValueFuture
   \<Rightarrow> ('p, 'x) v0_Value \<Rightarrow> 's world \<Rightarrow> Status \<times> ('p, 'x) v0_Value" where
  "Materialize ext sched future value_pb w =
     (case Wait future of
        Inl e \<Rightarrow> (Status_of e, value_pb)
      | Inr executor_value \<Rightarrow>
          (case MaterializeXLAValue ext executor_value [] value_pb [] of
             (st, value_pb', tasks) \<Rightarrow>
               if \<not> ok st then (st, value_pb')
               else
                 (case WaitAll ext (service w) sched tasks value_pb' of
                    (st', value_pb'') \<Rightarrow>
                      if \<not> ok st' then (st', value_pb'') else (OkStatus, value_pb''))))"

section \<open>Client acquisition\<close>

text \<open>
  The platform registry (\<^verbatim>\<open>PlatformWithName\<close>) and the client library
  (\<^verbatim>\<open>GetOrCreateLocalClient\<close>, on options that hold the platform) are parameters.
\<close>

definition GetXLAClient ::
  "(string \<Rightarrow> 'pl StatusOr) \<Rightarrow> ('pl \<Rightarrow> 'c StatusOr) \<Rightarrow> string \<Rightarrow> 'c StatusOr" where
  "GetXLAClient PlatformWithName GetOrCreateLocalClient platform_name =
     (case PlatformWithName platform_name of
        Inl e \<Rightarrow>
          StatusOr_of (InternalError
            (''Failed to find specified platform '' @ platform_name
               @ '' in MultiPlatformManager. You may be missing a build ''
               @ ''dependency to register the platform. Message: ''
               @ error_message (Status_of e)))
      | Inr platform \<Rightarrow>
          (case GetOrCreateLocalClient platform of
             Inl e \<Rightarrow>
               StatusOr_of (InternalError
                 (''Failed to construct XLA client. Message: ''
                    @ error_message (Status_of e)))
           | Inr constructed_client \<Rightarrow> Inr constructed_client))"

section \<open>Notions used to state the properties\<close>

text \<open>
  The children of a struct message are built one after another in message order, each
  on the service as its predecessor left it: \<open>built_in_order ext els svc vs svc'\<close> says
  that building the values of \<open>els\<close> from left to right, starting on \<open>svc\<close>, succeeds
  for every element, yields the values \<open>vs\<close> in the same order and leaves the service
  as \<open>svc'\<close>.
\<close>

fun built_in_order ::
  "('p, 'x, 'h, 'd, 'l, 'g, 's) externals \<Rightarrow> ('x \<times> ('p, 'x) v0_Value) list \<Rightarrow> 's
   \<Rightarrow> ('g, 'd) XLAExecutorValue list \<Rightarrow> 's \<Rightarrow> bool" where
  "built_in_order ext [] svc vs svc' = (vs = [] \<and> svc' = svc)"
| "built_in_order ext (el # els) svc vs svc' =
     (case vs of
        [] \<Rightarrow> False
      | v # vs' \<Rightarrow>
          (case CreateValueAny ext (snd el) svc of
             (Inl e, svc1) \<Rightarrow> False
           | (Inr v', svc1) \<Rightarrow> v' = v \<and> built_in_order ext els svc1 vs' svc'))"

text \<open>
  The values that can be built with the two public constructors of
  \<^verbatim>\<open>XLAExecutorValue\<close>, and the test whether the \<open>UNIMPLEMENTED\<close> classification
  appears anywhere in a value.
\<close>

inductive constructible :: "('g, 'd) XLAExecutorValue \<Rightarrow> bool" where
  from_tensor: "constructible (XLAExecutorValue_tensor g d)"
| from_vector: "(\<And>v. v \<in> set value_vector \<Longrightarrow> constructible v)
                \<Longrightarrow> constructible (XLAExecutorValue_struct value_vector)"

fun holds_unimplemented :: "('g, 'd) XLAExecutorValue \<Rightarrow> bool" where
  "holds_unimplemented (holds_tensor t) = False"
| "holds_unimplemented (holds_vector vs) = (\<exists>v \<in> set vs. holds_unimplemented v)"
| "holds_unimplemented valueless = True"

text \<open>
  What the walk of \<open>MaterializeXLAValue\<close> does to a value. \<open>units_of v k\<close> are the
  units it registers, in registration order, with addresses relative to the slot of
  \<open>v\<close>, when that slot already holds \<open>k\<close> struct elements; \<open>skeleton ext v slot\<close> is the
  content of the slot after the walk, before any unit has run; \<open>materialized ext svc v
  slot\<close> is its content once every unit has stored what it stores. \<open>leaves v\<close> are
  the tensors of \<open>v\<close> from left to right, and addresses are \<open>independent\<close> when none
  of them lies on the path to another.
\<close>

fun lift_task :: "nat \<Rightarrow> ('g, 'd) task \<Rightarrow> ('g, 'd) task" where
  "lift_task i (t, r) = (t, i # r)"

fun at_addr :: "addr \<Rightarrow> ('g, 'd) task \<Rightarrow> ('g, 'd) task" where
  "at_addr a (t, r) = (t, a @ r)"

fun units_of :: "('g, 'd) XLAExecutorValue \<Rightarrow> nat \<Rightarrow> ('g, 'd) task list"
and units_of_elements :: "('g, 'd) XLAExecutorValue list \<Rightarrow> nat \<Rightarrow> ('g, 'd) task list" where
  "units_of (holds_tensor t) k = [(t, [])]"
| "units_of (holds_vector vs) k = units_of_elements vs k"
| "units_of valueless k = []"
| "units_of_elements [] k = []"
| "units_of_elements (v # vs) k = map (lift_task k) (units_of v 0) @ units_of_elements vs (Suc k)"

fun skeleton ::
  "('p, 'x, 'h, 'd, 'l, 'g, 's) externals \<Rightarrow> ('g, 'd) XLAExecutorValue \<Rightarrow> ('p, 'x) v0_Value
   \<Rightarrow> ('p, 'x) v0_Value"
and skeleton_elements ::
  "('p, 'x, 'h, 'd, 'l, 'g, 's) externals \<Rightarrow> ('g, 'd) XLAExecutorValue list
   \<Rightarrow> ('x \<times> ('p, 'x) v0_Value) list" where
  "skeleton ext (holds_tensor t) slot = slot"
| "skeleton ext (holds_vector vs) slot = kStruct (mutable_struct slot @ skeleton_elements ext vs)"
| "skeleton ext valueless slot = slot"
| "skeleton_elements ext [] = []"
| "skeleton_elements ext (v # vs) = (add_element ext, skeleton ext v VALUE_NOT_SET) # skeleton_elements ext vs"

fun materialized ::
  "('p, 'x, 'h, 'd, 'l, 'g, 's) externals \<Rightarrow> 's \<Rightarrow> ('g, 'd) XLAExecutorValue \<Rightarrow> ('p, 'x) v0_Value
   \<Rightarrow> ('p, 'x) v0_Value"
and materialized_elements ::
  "('p, 'x, 'h, 'd, 'l, 'g, 's) externals \<Rightarrow> 's \<Rightarrow> ('g, 'd) XLAExecutorValue list
   \<Rightarrow> ('x \<times> ('p, 'x) v0_Value) list" where
  "materialized ext svc (holds_tensor t) slot = snd (transfer_back ext svc t slot)"
| "materialized ext svc (holds_vector vs) slot = kStruct (mutable_struct slot @ materialized_elements ext svc vs)"
| "materialized ext svc valueless slot = slot"
| "materialized_elements ext svc [] = []"
| "materialized_elements ext svc (v # vs) = (add_element ext, materialized ext svc v VALUE_NOT_SET) # materialized_elements ext svc vs"

fun independent :: "addr list \<Rightarrow> bool" where
  "independent [] = True"
| "independent (a # as) = ((\<forall>b \<in> set as. parallel a b) \<and> independent as)"

fun leaves :: "('g, 'd) XLAExecutorValue \<Rightarrow> ('g, 'd) ServiceTensor list" where
  "leaves (holds_tensor t) = [t]"
| "leaves (holds_vector vs) = concat (map leaves vs)"
| "leaves valueless = []"

text \<open>
  The assumptions under which a message can make the round trip. The codec round-trips
  a tensor payload \<open>p\<close> when the message decodes, the host tensor converts to a literal,
  that literal converts back to a host tensor under the dtype of the decoded tensor, and
  encoding the result into a fresh slot succeeds and writes the same tensor message. A
  message qualifies when it is made of tensors and structs only and the codec round-trips
  each of its tensors. The service round-trips when every transfer to it succeeds and
  the new allocation reads back as the literal sent, and when an allocation that reads
  back keeps doing so after any later transfer to the service (\<open>extends\<close>).

  \<open>rebuilt ext m\<close> is \<open>m\<close> as materialization rebuilds it: a tensor message is
  itself, and a struct is the struct of its rebuilt element values in the same order,
  each in a newly added element. A message has \<open>plain_elements\<close> when none of its
  struct elements carries anything that a newly added element does not.
\<close>

definition codec_round_trips :: "('p, 'x, 'h, 'd, 'l, 'g, 's) externals \<Rightarrow> 'p \<Rightarrow> bool" where
  "codec_round_trips ext p =
     (case DeserializeTensorValue ext (kTensor p) of
        Inl e \<Rightarrow> False
      | Inr t \<Rightarrow>
          (case HostTensorToBorrowingLiteral ext t of
             (to_literal_status, literal) \<Rightarrow>
               ok to_literal_status \<and>
               (case LiteralToHostTensor ext literal (tensor_dtype ext t) of
                  (tensor_conversion, tensor_out) \<Rightarrow>
                    ok tensor_conversion \<and>
                    SerializeTensorValue ext tensor_out VALUE_NOT_SET = (OkStatus, kTensor p))))"

fun tensors_round_trip ::
  "('p, 'x, 'h, 'd, 'l, 'g, 's) externals \<Rightarrow> ('p, 'x) v0_Value \<Rightarrow> bool" where
  "tensors_round_trip ext (kTensor p) = codec_round_trips ext p"
| "tensors_round_trip ext (kStruct els) = (\<forall>el \<in> set els. tensors_round_trip ext (snd el))"
| "tensors_round_trip ext v = False"

definition service_round_trips :: "('p, 'x, 'h, 'd, 'l, 'g, 's) externals \<Rightarrow> bool" where
  "service_round_trips ext \<longleftrightarrow>
     (\<forall>l s. \<exists>g s'. TransferToServer ext l s = (Inr g, s') \<and> Transfer ext g s' = Inr l)
     \<and> (\<forall>l s g l0. Transfer ext g s = Inr l0 \<longrightarrow>
           Transfer ext g (snd (TransferToServer ext l s)) = Inr l0)"

fun plain_elements ::
  "('p, 'x, 'h, 'd, 'l, 'g, 's) externals \<Rightarrow> ('p, 'x) v0_Value \<Rightarrow> bool" where
  "plain_elements ext (kStruct els) =
     (\<forall>el \<in> set els. fst el = add_element ext \<and> plain_elements ext (snd el))"
| "plain_elements ext v = True"

fun rebuilt :: "('p, 'x, 'h, 'd, 'l, 'g, 's) externals \<Rightarrow> ('p, 'x) v0_Value \<Rightarrow> ('p, 'x) v0_Value" where
  "rebuilt ext (kStruct els) = kStruct (map (\<lambda>el. (add_element ext, rebuilt ext (snd el))) els)"
| "rebuilt ext v = v"

definition extends :: "('p, 'x, 'h, 'd, 'l, 'g, 's) externals \<Rightarrow> 's \<Rightarrow> 's \<Rightarrow> bool" where
  "extends ext s s' \<longleftrightarrow> (\<forall>g l. Transfer ext g s = Inr l \<longrightarrow> Transfer ext g s' = Inr l)"

definition leaves_ok :: "('p, 'x, 'h, 'd, 'l, 'g, 's) externals \<Rightarrow> 's \<Rightarrow> ('g, 'd) XLAExecutorValue \<Rightarrow> bool" where
  "leaves_ok ext s v \<longleftrightarrow>
     (\<forall>t \<in> set (leaves v). ok (fst (transfer_back ext s t (VALUE_NOT_SET :: ('p, 'x) v0_Value))))"

section \<open>An instance of the externals\<close>

text \<open>
  A small service for evaluating the definitions: payloads, host tensors and literals
  are numbers, the service is the list of the literals it stores and a handle is an
  index into it. Sending the literal 13 fails with the service error \<open>boom\<close>; reading
  back a stored 66 fails with \<open>gone\<close>.
\<close>

definition example_externals :: "(nat, string, nat, nat, nat, nat, nat list) externals" where
  "example_externals =
     \<lparr> DeserializeTensorValue =
         (\<lambda>v. case v of kTensor p \<Rightarrow> Inr p | _ \<Rightarrow> Inl (kInvalidArgument, ''not a tensor'')),
       tensor_dtype = (\<lambda>h. 0),
       HostTensorToBorrowingLiteral = (\<lambda>h. (OkStatus, h)),
       TransferToServer =
         (\<lambda>l s. if l = 13 then (Inl (kUnavailable, ''boom''), s) else (Inr (length s), s @ [l])),
       Transfer =
         (\<lambda>g s. if g < length s \<and> s ! g \<noteq> 66 then Inr (s ! g) else Inl (kNotFound, ''gone'')),
       LiteralToHostTensor = (\<lambda>l d. (OkStatus, l)),
       SerializeTensorValue = (\<lambda>h v. (OkStatus, kTensor h)),
       add_element = [],
       StrCat_ValueType =
         (\<lambda>t. case t of TENSOR \<Rightarrow> ''0'' | STRUCT \<Rightarrow> ''1'' | UNIMPLEMENTED \<Rightarrow> ''2'') \<rparr>"

text \<open>The same service when no transfer fails.\<close>

definition reliable_externals :: "(nat, string, nat, nat, nat, nat, nat list) externals" where
  "reliable_externals =
     example_externals
       \<lparr> TransferToServer := (\<lambda>l s. (Inr (length s), s @ [l])),
         Transfer := (\<lambda>g s. if g < length s then Inr (s ! g) else Inl (kNotFound, ''gone'')) \<rparr>"

section \<open>Unsupported operations fail at once\<close>

text \<open>
  C4. For every input and every state of the executor, \<open>CreateCall\<close>, \<open>CreateStruct\<close>
  and \<open>CreateSelection\<close> return the unimplemented-class failure
  \<open>Not implemented yet\<close> and leave the world as it was: no asynchronous unit is
  scheduled (\<open>thread_runs\<close> is unchanged) and the service is not touched.
\<close>

theorem unsupported_operations_unimplemented:
  "CreateCall fn arg w = (Inl (kUnimplemented, ''Not implemented yet''), w)
   \<and> CreateStruct members w = (Inl (kUnimplemented, ''Not implemented yet''), w)
   \<and> CreateSelection v index w = (Inl (kUnimplemented, ''Not implemented yet''), w)"
  by (simp add: CreateCall_def CreateStruct_def CreateSelection_def UnimplementedError_def)

section \<open>Messages that are neither tensors nor structs\<close>

text \<open>
  C6. For every value message that is neither a tensor nor a struct, the future returned
  by \<open>CreateExecutorValue\<close> resolves to the unimplemented-class failure
  \<open>Not implemented yet\<close>, and the service is left as it was: no allocation is made.
\<close>

theorem CreateExecutorValue_other_shape:
  assumes "\<forall>p. value_pb \<noteq> kTensor p" and "\<forall>els. value_pb \<noteq> kStruct els"
  shows "\<exists>future w'. CreateExecutorValue ext value_pb w = (Inr future, w')
           \<and> Wait future = Inl (kUnimplemented, ''Not implemented yet'')
           \<and> service w' = service w"
  using assms
  by (cases value_pb)
     (simp_all add: CreateExecutorValue_def ThreadRun_def Wait_def UnimplementedError_def)

theorem CreateExecutorValue_other_shape_witness:
  "\<exists>future w'. CreateExecutorValue example_externals kComputation
                  \<lparr>service = [], thread_runs = 0\<rparr> = (Inr future, w')
     \<and> Wait future = Inl (kUnimplemented, ''Not implemented yet'')
     \<and> service w' = service \<lparr>service = ([] :: nat list), thread_runs = 0\<rparr>"
  using CreateExecutorValue_other_shape
          [of kComputation example_externals "\<lparr>service = [], thread_runs = 0\<rparr>"]
  by simp

section \<open>The defensive branch of materialization\<close>

text \<open>
  C7, as the code has it. When \<open>MaterializeXLAValue\<close> is reached with a value whose
  type is \<open>UNIMPLEMENTED\<close>, it returns an unimplemented-class error (not an
  internal-class one) whose message ends with the rendering of the offending type, and
  it leaves the output slot and the task group as they were.
\<close>

theorem MaterializeXLAValue_unimplemented:
  assumes "type executor_value = UNIMPLEMENTED"
  shows "MaterializeXLAValue ext executor_value addr value_pb tasks =
           (Error kUnimplemented
              (''Can only materialize tensors and structures of tensors from XLA executor; attempted to materialize a value of type: ''
                 @ StrCat_ValueType ext UNIMPLEMENTED), value_pb, tasks)"
  using assms by (cases executor_value) (simp_all add: UnimplementedError_def)

theorem MaterializeXLAValue_unimplemented_witness:
  "type (valueless :: (nat, nat) XLAExecutorValue) = UNIMPLEMENTED
   \<and> MaterializeXLAValue example_externals valueless [] VALUE_NOT_SET [] =
       (Error kUnimplemented
          ''Can only materialize tensors and structures of tensors from XLA executor; attempted to materialize a value of type: 2'',
        VALUE_NOT_SET, [])"
  using MaterializeXLAValue_unimplemented
          [of "valueless :: (nat, nat) XLAExecutorValue" example_externals "[]" VALUE_NOT_SET "[]"]
  by (simp add: example_externals_def)

text \<open>
  C7 as stated fails: on the valueless value the status returned is not of the internal
  class.
\<close>

theorem MaterializeXLAValue_not_internal:
  "\<not> IsInternal (fst (MaterializeXLAValue example_externals
                        (valueless :: (nat, nat) XLAExecutorValue) [] VALUE_NOT_SET []))"
  by (simp add: IsInternal_def UnimplementedError_def)

section \<open>Errors of client acquisition\<close>

text \<open>
  C9, as the code has it. Both failures of \<open>GetXLAClient\<close> are internal-class errors
  that carry the underlying error message. The failure to find the platform also
  carries the platform name; the failure to construct the client does not.
\<close>

theorem GetXLAClient_failures:
  "(PlatformWithName platform_name = Inl (c, m) \<longrightarrow>
      GetXLAClient PlatformWithName GetOrCreateLocalClient platform_name =
        Inl (kInternal,
             ''Failed to find specified platform '' @ platform_name
               @ '' in MultiPlatformManager. You may be missing a build dependency to register the platform. Message: ''
               @ m))
   \<and> (PlatformWithName platform_name = Inr platform
        \<and> GetOrCreateLocalClient platform = Inl (c, m) \<longrightarrow>
      GetXLAClient PlatformWithName GetOrCreateLocalClient platform_name =
        Inl (kInternal, ''Failed to construct XLA client. Message: '' @ m))"
  by (simp add: GetXLAClient_def InternalError_def)

theorem GetXLAClient_failures_witness:
  "GetXLAClient (\<lambda>n. Inl (kNotFound, ''no such platform'') :: nat StatusOr)
                (\<lambda>p. Inr p :: nat StatusOr) ''Host'' =
     Inl (kInternal,
          ''Failed to find specified platform Host in MultiPlatformManager. You may be missing a build dependency to register the platform. Message: no such platform'')
   \<and> GetXLAClient (\<lambda>n. Inr 1 :: nat StatusOr)
                  (\<lambda>p. Inl (kUnavailable, ''boom'') :: nat StatusOr) ''Host'' =
     Inl (kInternal, ''Failed to construct XLA client. Message: boom'')"
  using GetXLAClient_failures
          [of "\<lambda>n. Inl (kNotFound, ''no such platform'') :: nat StatusOr" "''Host''"
              kNotFound "''no such platform''" "\<lambda>p. Inr p :: nat StatusOr" 0]
        GetXLAClient_failures
          [of "\<lambda>n. Inr 1 :: nat StatusOr" "''Host''" kUnavailable "''boom''"
              "\<lambda>p. Inl (kUnavailable, ''boom'') :: nat StatusOr" 1]
  by simp

text \<open>
  C9 as stated fails: when the platform \<open>Host\<close> is found and the construction of the
  client fails, the error message does not contain the platform name.
\<close>

theorem GetXLAClient_construction_failure_omits_platform:
  "GetXLAClient (\<lambda>n. Inr 1 :: nat StatusOr)
                (\<lambda>p. Inl (kUnavailable, ''boom'') :: nat StatusOr) ''Host'' =
     Inl (kInternal, ''Failed to construct XLA client. Message: boom'')
   \<and> \<not> sublist ''Host'' ''Failed to construct XLA client. Message: boom''"
  by (simp add: GetXLAClient_def InternalError_def sublist_Cons_right prefix_Cons)

section \<open>The message of a failed transfer to the service\<close>

text \<open>
  Whatever error the service reports for the transfer, the message of the failure is the
  same fixed text.
\<close>

lemma EmbedTensorValue_transfer_failure:
  assumes "DeserializeTensorValue ext value_pb = Inr t"
    and "HostTensorToBorrowingLiteral ext t = (OkStatus, tensor_literal)"
    and "TransferToServer ext tensor_literal svc = (Inl e, svc')"
  shows "EmbedTensorValue ext value_pb svc =
           (Inl (kInvalidArgument, ''Failed to transfer XLA literal to local server. Message: ''),
            svc')"
  using assms by (simp add: EmbedTensorValue_def InvalidArgumentError_def)

text \<open>
  C5, evaluated at a failing transfer. Sending the literal 13 fails in the service with
  the error text \<open>boom\<close>. \<open>EmbedTensorValue\<close> reports an invalid-argument-class failure
  whose message is the fixed prefix followed by the message of the status of the
  conversion to a literal, which is OK at this point and has an empty message: the
  service error text is not in the message.
\<close>

theorem EmbedTensorValue_transfer_failure_drops_service_text:
  "TransferToServer example_externals 13 [] = (Inl (kUnavailable, ''boom''), [])
   \<and> EmbedTensorValue example_externals (kTensor 13) [] =
       (Inl (kInvalidArgument, ''Failed to transfer XLA literal to local server. Message: ''), [])
   \<and> \<not> sublist ''boom'' ''Failed to transfer XLA literal to local server. Message: ''"
  by (simp add: EmbedTensorValue_def example_externals_def InvalidArgumentError_def
                sublist_Cons_right prefix_Cons)

section \<open>Construction of a struct is all or nothing\<close>

lemma elements_success:
  "built_in_order ext els svc vs svc' \<Longrightarrow>
   CreateValueAny_elements ext els values svc = (Inr (XLAExecutorValue_struct (values @ vs)), svc')"
  by (induction els arbitrary: "values" svc vs)
     (auto split: list.splits prod.splits sum.splits)

lemma elements_first_failure:
  "built_in_order ext pre svc vs svc1 \<Longrightarrow> CreateValueAny ext (snd el) svc1 = (Inl e, svc2) \<Longrightarrow>
   CreateValueAny_elements ext (pre @ el # post) values svc = (Inl e, svc2)"
  by (induction pre arbitrary: "values" svc vs)
     (auto split: list.splits prod.splits sum.splits)

lemma elements_result:
  "CreateValueAny_elements ext els values svc = (Inr v, svc') \<Longrightarrow>
   \<exists>vs. v = XLAExecutorValue_struct (values @ vs) \<and> length vs = length els
        \<and> built_in_order ext els svc vs svc'"
proof (induction els arbitrary: "values" svc)
  case Nil
  then show ?case by simp
next
  case (Cons el els)
  from Cons.prems obtain v1 svc1 where
    c: "CreateValueAny ext (snd el) svc = (Inr v1, svc1)"
    and r: "CreateValueAny_elements ext els (values @ [v1]) svc1 = (Inr v, svc')"
    by (auto split: prod.splits sum.splits)
  from Cons.IH[OF r] obtain vs where
    "v = XLAExecutorValue_struct ((values @ [v1]) @ vs)" "length vs = length els"
    "built_in_order ext els svc1 vs svc'" by blast
  with c show ?case by (intro exI[of _ "v1 # vs"]) simp
qed

text \<open>
  C2. \<open>CreateValueAny\<close> on a struct message builds the children in message order. When
  every child succeeds the result is the struct of all the children's values, in that
  order. When the children of a prefix \<open>pre\<close> succeed and the next child fails, the
  result is that child's failure, whatever follows it in the message. Every value that
  is returned for a struct message is a struct with one child for each element, built
  in order: a value holding only a prefix of the children is never returned.
\<close>

theorem struct_construction_all_or_nothing:
  "(built_in_order ext els svc vs svc' \<longrightarrow>
      CreateValueAny ext (kStruct els) svc = (Inr (XLAExecutorValue_struct vs), svc'))
   \<and> (built_in_order ext pre svc0 vs0 svc1 \<and> CreateValueAny ext (snd el) svc1 = (Inl e, svc2) \<longrightarrow>
      CreateValueAny ext (kStruct (pre @ el # post)) svc0 = (Inl e, svc2))
   \<and> (CreateValueAny ext (kStruct els) svc = (Inr v, svc') \<longrightarrow>
      (\<exists>vs. v = XLAExecutorValue_struct vs \<and> length vs = length els
            \<and> built_in_order ext els svc vs svc'))"
  using elements_success[of ext els svc vs svc' "[]"]
        elements_first_failure[of ext pre svc0 vs0 svc1 el e svc2 post "[]"]
        elements_result[of ext els "[]" svc v svc']
  by simp

theorem struct_construction_all_or_nothing_witness:
  "built_in_order example_externals [(''a'', kTensor 1), (''b'', kTensor 2)] []
     [XLAExecutorValue_tensor 0 0, XLAExecutorValue_tensor 1 0] [1, 2]
   \<and> CreateValueAny example_externals (kStruct [(''a'', kTensor 1), (''b'', kTensor 2)]) [] =
       (Inr (XLAExecutorValue_struct [XLAExecutorValue_tensor 0 0, XLAExecutorValue_tensor 1 0]),
        [1, 2])
   \<and> built_in_order example_externals [(''a'', kTensor 1)] [] [XLAExecutorValue_tensor 0 0] [1]
   \<and> CreateValueAny example_externals (kTensor 13) [1] =
       (Inl (kInvalidArgument, ''Failed to transfer XLA literal to local server. Message: ''), [1])
   \<and> CreateValueAny example_externals
         (kStruct ([(''a'', kTensor 1)] @ (''b'', kTensor 13) # [(''c'', kTensor 3)])) [] =
       (Inl (kInvalidArgument, ''Failed to transfer XLA literal to local server. Message: ''), [1])
   \<and> (\<exists>vs. XLAExecutorValue_struct [XLAExecutorValue_tensor 0 0, XLAExecutorValue_tensor 1 0] =
              XLAExecutorValue_struct vs
         \<and> length vs = length [(''a'', kTensor (1::nat)), (''b'', kTensor 2)]
         \<and> built_in_order example_externals [(''a'', kTensor 1), (''b'', kTensor 2)] [] vs [1, 2])"
proof -
  have h1: "built_in_order example_externals [(''a'', kTensor 1), (''b'', kTensor 2)] []
              [XLAExecutorValue_tensor 0 0, XLAExecutorValue_tensor 1 0] [1, 2]"
    by (simp add: EmbedTensorValue_def example_externals_def)
  have h2: "built_in_order example_externals [(''a'', kTensor 1)] []
              [XLAExecutorValue_tensor 0 0] [1]"
    by (simp add: EmbedTensorValue_def example_externals_def)
  have h3: "CreateValueAny example_externals (kTensor 13) [1] =
              (Inl (kInvalidArgument, ''Failed to transfer XLA literal to local server. Message: ''), [1])"
    by (simp add: EmbedTensorValue_def example_externals_def InvalidArgumentError_def)
  from h1 h2 h3
    struct_construction_all_or_nothing
      [of example_externals "[(''a'', kTensor 1), (''b'', kTensor 2)]" "[]"
          "[XLAExecutorValue_tensor 0 0, XLAExecutorValue_tensor 1 0]" "[1, 2]"
          "[(''a'', kTensor 1)]" "[]" "[XLAExecutorValue_tensor 0 0]" "[1]"
          "(''b'', kTensor 13)"
          "(kInvalidArgument, ''Failed to transfer XLA literal to local server. Message: '')"
          "[1]" "[(''c'', kTensor 3)]"
          "XLAExecutorValue_struct [XLAExecutorValue_tensor 0 0, XLAExecutorValue_tensor 1 0]"]
  show ?thesis by simp
qed

section \<open>No constructed value is unimplemented\<close>

lemma constructible_type: "constructible v \<Longrightarrow> type v \<noteq> UNIMPLEMENTED \<and> \<not> holds_unimplemented v"
  by (induction rule: constructible.induct)
     (auto simp: XLAExecutorValue_tensor_def XLAExecutorValue_struct_def)

lemma EmbedTensorValue_constructible:
  "EmbedTensorValue ext m svc = (Inr v, svc') \<Longrightarrow> constructible v"
  by (auto simp: EmbedTensorValue_def InvalidArgumentError_def intro: constructible.intros
           split: sum.splits prod.splits if_splits)

lemma CreateValueAny_constructible:
  "(CreateValueAny ext m svc = (Inr v, svc') \<longrightarrow> constructible v)"
  "((\<forall>u \<in> set values. constructible u) \<longrightarrow> CreateValueAny_elements ext els values svc = (Inr v, svc') \<longrightarrow> constructible v)"
proof (induction ext m svc and ext els "values" svc arbitrary: v svc' and v svc'
       rule: CreateValueAny_CreateValueAny_elements.induct)
  case (1 ext p svc)
  then show ?case by (auto dest: EmbedTensorValue_constructible)
next
  case (2 ext els svc)
  then show ?case by simp
next
  case (7 ext vals svc)
  then show ?case by (auto intro: constructible.intros)
next
  case (8 ext el els vals svc)
  show ?case
  proof (intro impI)
    assume a: "\<forall>u \<in> set vals. constructible u"
      and r: "CreateValueAny_elements ext (el # els) vals svc = (Inr v, svc')"
    from r obtain v1 svc1 where
      c: "CreateValueAny ext (snd el) svc = (Inr v1, svc1)"
      and r': "CreateValueAny_elements ext els (vals @ [v1]) svc1 = (Inr v, svc')"
      by (auto split: prod.splits sum.splits)
    from "8.IH"(1) c have "constructible v1" by blast
    with a have "\<forall>u \<in> set (vals @ [v1]). constructible u" by auto
    with "8.IH"(2)[OF c[symmetric] refl] r' show "constructible v" by blast
  qed
qed (simp_all add: UnimplementedError_def)

text \<open>
  C8. A value built with the public constructors has type \<open>TENSOR\<close> or \<open>STRUCT\<close>, and
  the \<open>UNIMPLEMENTED\<close> classification appears nowhere inside it. Whatever the state of
  the executor, a value to which a future returned by \<open>CreateExecutorValue\<close> resolves is
  built with these constructors, and the other operations that could return a value
  (\<open>CreateCall\<close>, \<open>CreateStruct\<close>, \<open>CreateSelection\<close>) never return one; so this holds
  after any sequence of operations.
\<close>

theorem unimplemented_never_constructed:
  "(constructible v \<longrightarrow> (type v = TENSOR \<or> type v = STRUCT) \<and> \<not> holds_unimplemented v)
   \<and> (CreateExecutorValue ext value_pb w = (Inr future, w') \<and> Wait future = Inr v' \<longrightarrow>
        constructible v')
   \<and> fst (CreateCall fn arg w1) \<noteq> Inr f1
   \<and> fst (CreateStruct members w2) \<noteq> Inr f2
   \<and> fst (CreateSelection sel index w3) \<noteq> Inr f3"
proof -
  have a: "constructible v \<longrightarrow> (type v = TENSOR \<or> type v = STRUCT) \<and> \<not> holds_unimplemented v"
    using constructible_type[of v] by (cases "type v") auto
  have b: "CreateExecutorValue ext value_pb w = (Inr future, w') \<and> Wait future = Inr v' \<longrightarrow>
             constructible v'"
    using CreateValueAny_constructible(1)[of ext value_pb "service w" v']
    by (auto simp: CreateExecutorValue_def ThreadRun_def Wait_def split: prod.splits)
  have c: "fst (CreateCall fn arg w1) \<noteq> Inr f1" "fst (CreateStruct members w2) \<noteq> Inr f2"
    "fst (CreateSelection sel index w3) \<noteq> Inr f3"
    by (simp_all add: CreateCall_def CreateStruct_def CreateSelection_def UnimplementedError_def)
  from a b c show ?thesis by blast
qed

theorem unimplemented_never_constructed_witness:
  "constructible (XLAExecutorValue_struct [XLAExecutorValue_tensor (0::nat) (0::nat)])
   \<and> type (XLAExecutorValue_struct [XLAExecutorValue_tensor (0::nat) (0::nat)]) = STRUCT
   \<and> \<not> holds_unimplemented (XLAExecutorValue_struct [XLAExecutorValue_tensor (0::nat) (0::nat)])
   \<and> CreateExecutorValue example_externals (kStruct [(''a'', kTensor 1)])
         \<lparr>service = [], thread_runs = 0\<rparr> =
       (Inr (Inr (XLAExecutorValue_struct [XLAExecutorValue_tensor 0 0])),
        \<lparr>service = [1], thread_runs = 1\<rparr>)
   \<and> Wait (Inr (XLAExecutorValue_struct [XLAExecutorValue_tensor (0::nat) (0::nat)])
             :: (nat, nat) ValueFuture) =
       Inr (XLAExecutorValue_struct [XLAExecutorValue_tensor 0 0])"
proof -
  have h1: "constructible (XLAExecutorValue_struct [XLAExecutorValue_tensor (0::nat) (0::nat)])"
    by (rule constructible.from_vector) (simp add: constructible.from_tensor)
  have h2: "CreateExecutorValue example_externals (kStruct [(''a'', kTensor 1)])
              \<lparr>service = [], thread_runs = 0\<rparr> =
            (Inr (Inr (XLAExecutorValue_struct [XLAExecutorValue_tensor 0 0])),
             \<lparr>service = [1], thread_runs = 1\<rparr>)"
    by (simp add: CreateExecutorValue_def ThreadRun_def EmbedTensorValue_def
                  example_externals_def)
  have h3: "Wait (Inr (XLAExecutorValue_struct [XLAExecutorValue_tensor (0::nat) (0::nat)])
                  :: (nat, nat) ValueFuture) =
            Inr (XLAExecutorValue_struct [XLAExecutorValue_tensor 0 0])"
    by (simp add: Wait_def)
  from h1 h2 h3
    unimplemented_never_constructed
      [of "XLAExecutorValue_struct [XLAExecutorValue_tensor (0::nat) (0::nat)]"
          example_externals "kStruct [(''a'', kTensor 1)]" "\<lparr>service = [], thread_runs = 0\<rparr>"
          "Inr (XLAExecutorValue_struct [XLAExecutorValue_tensor 0 0])"
          "\<lparr>service = [1], thread_runs = 1\<rparr>"
          "XLAExecutorValue_struct [XLAExecutorValue_tensor 0 0]"]
  show ?thesis by (simp add: XLAExecutorValue_struct_def XLAExecutorValue_tensor_def)
qed

section \<open>Materialization in any completion order\<close>

lemma at_addr_lift: "at_addr (a @ [k]) t = at_addr a (lift_task k t)"
  by (cases t) simp

lemma at_addr_Nil: "map (at_addr []) ts = ts"
  by (induction ts) auto

lemma walk_ok:
  "\<not> holds_unimplemented v \<Longrightarrow>
     MaterializeXLAValue ext v addr slot tasks =
       (OkStatus, skeleton ext v slot, tasks @ map (at_addr addr) (units_of v (length (mutable_struct slot))))"
  "(\<forall>v \<in> set vs. \<not> holds_unimplemented v) \<Longrightarrow>
     MaterializeXLAValue_elements ext vs addr elements tasks =
       (OkStatus, kStruct (elements @ skeleton_elements ext vs),
        tasks @ map (at_addr addr) (units_of_elements vs (length elements)))"
proof (induction ext v addr slot tasks and ext vs addr elements tasks
       rule: MaterializeXLAValue_MaterializeXLAValue_elements.induct)
  case (1 ext t addr value_pb tasks)
  then show ?case by (simp add: add_task_def)
next
  case (2 ext struct addr value_pb tasks)
  then show ?case by simp
next
  case (3 ext addr value_pb tasks)
  then show ?case by simp
next
  case (4 ext addr elements tasks)
  then show ?case by simp
next
  case (5 ext el els addr elements tasks)
  then show ?case by (simp add: at_addr_lift)
qed

lemma walk_fails:
  "holds_unimplemented v \<Longrightarrow> \<not> ok (fst (MaterializeXLAValue ext v addr slot tasks))"
  "(\<exists>v \<in> set vs. holds_unimplemented v) \<Longrightarrow>
     \<not> ok (fst (MaterializeXLAValue_elements ext vs addr elements tasks))"
proof (induction ext v addr slot tasks and ext vs addr elements tasks
       rule: MaterializeXLAValue_MaterializeXLAValue_elements.induct)
  case (5 ext el els addr elements tasks)
  obtain st val tasks' where
    w: "MaterializeXLAValue ext el (addr @ [length elements]) VALUE_NOT_SET tasks = (st, val, tasks')"
    by (cases "MaterializeXLAValue ext el (addr @ [length elements]) VALUE_NOT_SET tasks") auto
  show ?case
  proof (cases "ok st")
    case False
    with w show ?thesis by simp
  next
    case True
    with "5.IH"(1) w have "\<not> holds_unimplemented el" by auto
    with "5.prems" have "\<exists>v \<in> set els. holds_unimplemented v" by auto
    with "5.IH"(2) w True show ?thesis by auto
  qed
qed (simp_all add: UnimplementedError_def)

lemma get_put_parallel:
  "parallel a b \<Longrightarrow> get_at a (put_at b x R) = get_at a R"
proof (induction b x R arbitrary: a rule: put_at.induct)
  case (1 x v)
  then show ?case by simp
next
  case (2 i p x es)
  then obtain j q where a: "a = j # q" by (cases a) auto
  show ?case
  proof (cases "i = j")
    case True
    with 2 a show ?thesis by (auto simp: parallel_def)
  next
    case False
    with a show ?thesis by auto
  qed
qed simp_all

lemma put_put_parallel:
  "parallel a b \<Longrightarrow> put_at a x (put_at b y R) = put_at b y (put_at a x R)"
proof (induction a arbitrary: b R)
  case Nil
  then show ?case by simp
next
  case (Cons i p)
  then obtain j q where b: "b = j # q" by (cases b) auto
  show ?case
  proof (cases R)
    case (kStruct es)
    show ?thesis
    proof (cases "i = j")
      case True
      with Cons.prems b have "parallel p q" by (simp add: parallel_def)
      with Cons.IH kStruct b True show ?thesis by auto
    next
      case False
      with kStruct b show ?thesis by (auto simp: list_update_swap)
    qed
  qed (simp_all add: b)
qed

lemma run_task_eq:
  "run_task ext svc t R =
     (fst (transfer_back ext svc (fst t) (get_at (snd t) R)),
      put_at (snd t) (snd (transfer_back ext svc (fst t) (get_at (snd t) R))) R)"
  by (simp add: run_task_def split: prod.splits)

lemma run_tasks_snd:
  "snd (run_tasks ext svc P acc R) = fold (\<lambda>t r. snd (run_task ext svc t r)) P R"
  by (induction P arbitrary: acc R) (auto split: prod.splits)

lemma ok_Update: "ok (Update acc st) \<longleftrightarrow> ok acc \<and> ok st"
  by (cases acc) auto

lemma independent_iff:
  "independent as \<longleftrightarrow> distinct as \<and> (\<forall>a \<in> set as. \<forall>b \<in> set as. a \<noteq> b \<longrightarrow> parallel a b)"
proof (induction as)
  case Nil
  then show ?case by simp
next
  case (Cons a as)
  have np: "\<And>x. \<not> parallel x x" by (simp add: parallel_def)
  show ?case using Cons np by (auto simp: parallel_commute)
qed

lemma independent_mset:
  "mset as = mset bs \<Longrightarrow> independent as \<Longrightarrow> independent bs"
  unfolding independent_iff
  by (metis mset_eq_imp_distinct_iff mset_eq_setD)

lemma independent_append:
  "independent (xs @ ys) \<longleftrightarrow>
     independent xs \<and> independent ys \<and> (\<forall>a \<in> set xs. \<forall>b \<in> set ys. parallel a b)"
  by (induction xs) auto

lemma independent_map_Cons: "independent (map ((#) k) xs) \<longleftrightarrow> independent xs"
  by (induction xs) (auto simp: parallel_def)

lemma run_tasks_ok:
  "independent (map snd P) \<Longrightarrow>
     ok (fst (run_tasks ext svc P acc R)) \<longleftrightarrow>
       ok acc \<and> (\<forall>t \<in> set P. ok (fst (run_task ext svc t R)))"
proof (induction P arbitrary: acc R)
  case Nil
  then show ?case by simp
next
  case (Cons t P)
  obtain st R' where r: "run_task ext svc t R = (st, R')" by (cases "run_task ext svc t R")
  then have R': "R' = put_at (snd t) (snd (transfer_back ext svc (fst t) (get_at (snd t) R))) R"
    by (simp add: run_task_eq)
  from Cons.prems have ind: "independent (map snd P)"
    and par: "\<forall>u \<in> set P. parallel (snd u) (snd t)"
    by (auto simp: parallel_commute)
  have same: "\<forall>u \<in> set P. fst (run_task ext svc u R') = fst (run_task ext svc u R)"
    using par by (simp add: run_task_eq R' get_put_parallel)
  from Cons.IH[OF ind, of "Update acc st" R'] r same show ?case
    by (auto simp: ok_Update)
qed

lemma insert_at_mset: "mset (insert_at n x ys) = add_mset x (mset ys)"
  by (induction n x ys rule: insert_at.induct) auto

lemma completion_order_mset: "mset (completion_order sched ts) = mset ts"
  by (induction sched ts rule: completion_order.induct) (auto simp: insert_at_mset)

lemma effects_commute:
  assumes "parallel (snd x) (snd y)"
  shows "snd (run_task ext svc x (snd (run_task ext svc y z))) =
         snd (run_task ext svc y (snd (run_task ext svc x z)))"
proof -
  from assms have "parallel (snd y) (snd x)" by (simp add: parallel_commute)
  with assms show ?thesis
    by (simp add: run_task_eq get_put_parallel put_put_parallel)
qed

lemma fold_effects_permuted:
  assumes "mset P = mset T" and "independent (map snd T)"
  shows "fold (\<lambda>t r. snd (run_task ext svc t r)) P R =
         fold (\<lambda>t r. snd (run_task ext svc t r)) T R"
proof (rule fold_permuted_eq[where P = "\<lambda>_. True"])
  show "mset P = mset T" by fact
next
  fix x y z
  assume "x \<in> set P" "y \<in> set P"
  with assms(1) have xy: "x \<in> set T" "y \<in> set T" by (auto dest: mset_eq_setD)
  show "snd (run_task ext svc x (snd (run_task ext svc y z))) =
        snd (run_task ext svc y (snd (run_task ext svc x z)))"
  proof (cases "x = y")
    case True
    then show ?thesis by simp
  next
    case False
    from assms(2) have d: "distinct (map snd T)"
      and p: "\<forall>a \<in> set (map snd T). \<forall>b \<in> set (map snd T). a \<noteq> b \<longrightarrow> parallel a b"
      by (simp_all add: independent_iff)
    from d xy False have "snd x \<noteq> snd y"
      by (meson distinct_map inj_on_def)
    with p xy have "parallel (snd x) (snd y)" by auto
    then show ?thesis by (rule effects_commute)
  qed
qed simp_all

lemma effect_lift:
  "i < length es \<Longrightarrow>
     snd (run_task ext svc (lift_task i t) (kStruct es)) =
       kStruct (es[i := (fst (es ! i), snd (run_task ext svc t (snd (es ! i))))])"
  by (cases t) (simp add: run_task_eq)

lemma fold_effects_lift:
  "i < length es \<Longrightarrow>
     fold (\<lambda>t r. snd (run_task ext svc t r)) (map (lift_task i) T) (kStruct es) =
       kStruct (es[i := (fst (es ! i), fold (\<lambda>t r. snd (run_task ext svc t r)) T (snd (es ! i)))])"
proof (induction T arbitrary: es)
  case Nil
  then show ?case by simp
next
  case (Cons t T)
  then show ?case by (simp add: effect_lift)
qed


lemma sequential_effects:
  fixes ext :: "('p, 'x, 'h, 'd, 'l, 'g, 's) externals"
    and v :: "('g, 'd) XLAExecutorValue" and vs :: "('g, 'd) XLAExecutorValue list"
  shows "fold (\<lambda>t r. snd (run_task ext svc t r)) (units_of v (length (mutable_struct slot)))
        (skeleton ext v slot) = materialized ext svc v slot"
    and "fold (\<lambda>t r. snd (run_task ext svc t r)) (units_of_elements vs (length pre))
        (kStruct (pre @ skeleton_elements ext vs)) =
     kStruct (pre @ materialized_elements ext svc vs)"
proof (induction v "length (mutable_struct slot)" and vs "length pre" arbitrary: slot and pre
       rule: units_of_units_of_elements.induct)
  case (1 t)
  then show ?case by (simp add: run_task_eq)
next
  case (2 vs)
  then show ?case by simp
next
  case 3
  then show ?case by simp
next
  case 4
  then show ?case by simp
next
  case (5 v vs)
  have z: "0 = length (mutable_struct (VALUE_NOT_SET :: ('p, 'x) v0_Value))" by simp
  have s: "Suc (length pre) = length (pre @ [(add_element ext, materialized ext svc v VALUE_NOT_SET)])"
    by simp
  from "5.hyps"(1)[OF z] "5.hyps"(2)[OF s] show ?case
    by (simp add: fold_effects_lift nth_append)
qed

lemma units_independent:
  fixes v :: "('g, 'd) XLAExecutorValue" and vs :: "('g, 'd) XLAExecutorValue list"
  shows "independent (map snd (units_of v k))"
    and "independent (map snd (units_of_elements vs k))
     \<and> (\<forall>t \<in> set (units_of_elements vs k). \<exists>i r. snd t = i # r \<and> k \<le> i)"
proof (induction v k and vs k rule: units_of_units_of_elements.induct)
  case (5 v vs k)
  have m: "map snd (map (lift_task k) (units_of v 0)) = map ((#) k) (map snd (units_of v 0))"
    by (induction "units_of v 0") auto
  have h: "\<forall>t \<in> set (map (lift_task k) (units_of v 0)). \<exists>r. snd t = k # r"
    by auto
  have cross: "\<forall>a \<in> set (map ((#) k) (map snd (units_of v 0))).
                 \<forall>b \<in> set (map snd (units_of_elements vs (Suc k))). parallel a b"
  proof (intro ballI)
    fix a b
    assume "a \<in> set (map ((#) k) (map snd (units_of v 0)))"
      and "b \<in> set (map snd (units_of_elements vs (Suc k)))"
    then obtain r i r' where "a = k # r" "b = i # r'" "Suc k \<le> i"
      using 5 by fastforce
    then show "parallel a b" by (simp add: parallel_def)
  qed
  from 5 have le: "\<forall>t \<in> set (units_of_elements vs (Suc k)). \<exists>i r. snd t = i # r \<and> k \<le> i"
    by (meson Suc_leD)
  have split: "map snd (units_of_elements (v # vs) k) =
                 map ((#) k) (map snd (units_of v 0)) @ map snd (units_of_elements vs (Suc k))"
    using m by simp
  have ind1: "independent (map ((#) k) (map snd (units_of v 0)))"
    using 5 by (simp only: independent_map_Cons)
  have ind: "independent (map snd (units_of_elements (v # vs) k))"
    unfolding split independent_append using ind1 cross 5 by blast
  have heads: "\<forall>t \<in> set (units_of_elements (v # vs) k). \<exists>i r. snd t = i # r \<and> k \<le> i"
    using h le by auto
  from ind heads show ?case by blast
qed simp_all

lemma unit_slots:
  fixes ext :: "('p, 'x, 'h, 'd, 'l, 'g, 's) externals"
    and v :: "('g, 'd) XLAExecutorValue" and vs :: "('g, 'd) XLAExecutorValue list"
  shows "t \<in> set (units_of v (length (mutable_struct slot))) \<Longrightarrow>
     get_at (snd t) (skeleton ext v slot) = (if snd t = [] then slot else VALUE_NOT_SET)"
    and "t \<in> set (units_of_elements vs (length pre)) \<Longrightarrow>
     get_at (snd t) (kStruct (pre @ skeleton_elements ext vs)) = VALUE_NOT_SET"
proof (induction v "length (mutable_struct slot)" and vs "length pre" arbitrary: slot t and pre t
       rule: units_of_units_of_elements.induct)
  case (1 t')
  then show ?case by simp
next
  case (2 vs)
  from "2.hyps"[OF refl, of t] "2.prems" have
    "get_at (snd t) (kStruct (mutable_struct slot @ skeleton_elements ext vs)) = VALUE_NOT_SET"
    by simp
  moreover from "2.prems" units_independent(2)[of vs "length (mutable_struct slot)"]
  have "snd t \<noteq> []" by auto
  ultimately show ?case by simp
next
  case 3
  then show ?case by simp
next
  case 4
  then show ?case by simp
next
  case (5 v vs)
  have z: "0 = length (mutable_struct (VALUE_NOT_SET :: ('p, 'x) v0_Value))" by simp
  have s: "Suc (length pre) = length (pre @ [(add_element ext, skeleton ext v VALUE_NOT_SET)])"
    by simp
  from "5.prems" consider
    (here) u where "u \<in> set (units_of v 0)" "t = lift_task (length pre) u"
    | (later) "t \<in> set (units_of_elements vs (Suc (length pre)))"
    by auto
  then show ?case
  proof cases
    case here
    with "5.hyps"(1)[OF z, of u] show ?thesis
      by (cases u) (simp add: nth_append)
  next
    case later
    with "5.hyps"(2)[OF s, of t] show ?thesis by simp
  qed
qed

lemma units_leaves:
  fixes v :: "('g, 'd) XLAExecutorValue" and vs :: "('g, 'd) XLAExecutorValue list"
  shows "map fst (units_of v k) = leaves v"
    and "map fst (units_of_elements vs k) = concat (map leaves vs)"
proof (induction v k and vs k rule: units_of_units_of_elements.induct)
  case (5 v vs k)
  have "map fst (map (lift_task k) (units_of v 0)) = map fst (units_of v 0)"
    by (induction "units_of v 0") auto
  with 5 show ?case by simp
qed simp_all


lemma ok_iff: "ok st \<longleftrightarrow> st = OkStatus"
  by (cases st) auto

lemma Materialize_resolved:
  fixes ext :: "('p, 'x, 'h, 'd, 'l, 'g, 's) externals"
  assumes "\<not> holds_unimplemented v"
  shows "snd (Materialize ext sched (Inr v) slot w) = materialized ext (service w) v slot"
    and "ok (fst (Materialize ext sched (Inr v) slot w)) \<longleftrightarrow>
           (\<forall>t \<in> set (units_of v (length (mutable_struct slot))).
              ok (fst (transfer_back ext (service w) (fst t)
                         (if snd t = [] then slot else VALUE_NOT_SET))))"
proof -
  let ?T = "units_of v (length (mutable_struct slot))"
  let ?P = "completion_order sched ?T"
  let ?S = "skeleton ext v slot"
  let ?run = "run_tasks ext (service w) ?P OkStatus ?S"
  have walk: "MaterializeXLAValue ext v [] slot [] = (OkStatus, ?S, ?T)"
    using walk_ok(1)[OF assms, of ext "[]" slot "[]"] by (simp add: at_addr_Nil)
  have M: "Materialize ext sched (Inr v) slot w =
             (if \<not> ok (fst ?run) then (fst ?run, snd ?run) else (OkStatus, snd ?run))"
    by (simp add: Materialize_def Wait_def walk WaitAll_def split: prod.splits)
  have perm: "mset ?P = mset ?T" by (rule completion_order_mset)
  have indT: "independent (map snd ?T)" by (rule units_independent(1))
  have "mset (map snd ?P) = mset (map snd ?T)" using perm by (metis mset_map)
  then have indP: "independent (map snd ?P)"
    using indT by (metis independent_mset)
  have "snd ?run = fold (\<lambda>t r. snd (run_task ext (service w) t r)) ?P ?S"
    by (rule run_tasks_snd)
  also have "\<dots> = fold (\<lambda>t r. snd (run_task ext (service w) t r)) ?T ?S"
    using perm indT by (rule fold_effects_permuted)
  also have "\<dots> = materialized ext (service w) v slot"
    by (rule sequential_effects(1))
  finally have root: "snd ?run = materialized ext (service w) v slot" .
  from M root show "snd (Materialize ext sched (Inr v) slot w) = materialized ext (service w) v slot"
    by simp
  have setP: "set ?P = set ?T" using perm by (rule mset_eq_setD)
  have "ok (fst ?run) \<longleftrightarrow> (\<forall>t \<in> set ?P. ok (fst (run_task ext (service w) t ?S)))"
    using run_tasks_ok[OF indP, of ext "service w" OkStatus ?S] by simp
  also have "\<dots> \<longleftrightarrow> (\<forall>t \<in> set ?T. ok (fst (transfer_back ext (service w) (fst t)
                         (if snd t = [] then slot else VALUE_NOT_SET))))"
    unfolding setP by (simp add: run_task_eq unit_slots(1) cong: ball_cong)
  finally have st: "ok (fst ?run) \<longleftrightarrow> (\<forall>t \<in> set ?T. ok (fst (transfer_back ext (service w) (fst t)
                         (if snd t = [] then slot else VALUE_NOT_SET))))" .
  from M st show "ok (fst (Materialize ext sched (Inr v) slot w)) \<longleftrightarrow>
           (\<forall>t \<in> set ?T. ok (fst (transfer_back ext (service w) (fst t)
                         (if snd t = [] then slot else VALUE_NOT_SET))))"
    by (simp split: if_splits)
qed

lemma Materialize_unimplemented:
  "holds_unimplemented v \<Longrightarrow> \<not> ok (fst (Materialize ext sched (Inr v) slot w))"
  using walk_fails(1)[of v ext "[]" slot "[]"]
  by (cases "MaterializeXLAValue ext v [] slot []") (auto simp: Materialize_def Wait_def)

text \<open>Every order of the registered units is the completion order of some schedule.\<close>

lemma insert_at_length: "insert_at (length as) t (as @ bs) = as @ t # bs"
  by (induction as) auto

lemma completion_order_covers:
  "mset ys = mset ts \<Longrightarrow> \<exists>sched. completion_order sched ts = ys"
proof (induction ts arbitrary: ys)
  case Nil
  then show ?case by simp
next
  case (Cons t ts)
  then have "t \<in> set ys" by (metis list.set_intros(1) mset_eq_setD)
  then obtain as bs where ys: "ys = as @ t # bs" by (meson split_list)
  with Cons.prems have "mset (as @ bs) = mset ts" by simp
  from Cons.IH[OF this] obtain sched where "completion_order sched ts = as @ bs" by blast
  then have "completion_order (length as # sched) (t # ts) = ys"
    by (simp add: ys insert_at_length)
  then show ?case by blast
qed

section \<open>A failing leaf fails the materialization\<close>

text \<open>
  C3, as the code has it. Let the future be resolved to a value with at least two tensor
  leaves, and let the unit of one leaf fail when it runs on the fresh slot it writes to.
  Then \<open>Materialize\<close> returns a failure status, in whatever order the units complete.
  The output message is not reset: unless the walk itself failed, it holds the struct
  skeleton with, in each leaf slot, what the unit of that leaf stored there.
\<close>

theorem Materialize_fails_when_a_leaf_fails:
  fixes ext :: "('p, 'x, 'h, 'd, 'l, 'g, 's) externals"
  assumes "2 \<le> length (leaves v)"
    and "t \<in> set (leaves v)"
    and "\<not> ok (fst (transfer_back ext (service w) t VALUE_NOT_SET))"
  shows "\<not> ok (fst (Materialize ext sched (Inr v) value_pb w))
         \<and> (\<not> holds_unimplemented v \<longrightarrow>
              snd (Materialize ext sched (Inr v) value_pb w) =
                materialized ext (service w) v value_pb)"
proof (cases "holds_unimplemented v")
  case True
  then show ?thesis by (simp add: Materialize_unimplemented)
next
  case False
  let ?k = "length (mutable_struct value_pb)"
  from assms(1) obtain vs where v: "v = holds_vector vs" by (cases v) auto
  from assms(2) units_leaves(1)[of v ?k] obtain u where
    u: "u \<in> set (units_of v ?k)" "fst u = t"
    by (metis (no_types, lifting) imageE list.set_map)
  from u(1) v units_independent(2)[of vs ?k] have "snd u \<noteq> []" by auto
  with u assms(3) have
    "\<not> (\<forall>t \<in> set (units_of v ?k).
          ok (fst (transfer_back ext (service w) (fst t)
                     (if snd t = [] then value_pb else VALUE_NOT_SET))))"
    by auto
  with Materialize_resolved[OF False, of ext sched value_pb w] show ?thesis by simp
qed


theorem Materialize_fails_when_a_leaf_fails_witness:
  "2 \<le> length (leaves (holds_vector [holds_tensor (ServiceTensor (0::nat) (0::nat)),
                                       holds_tensor (ServiceTensor 1 0)]))
   \<and> ServiceTensor 1 0 \<in> set (leaves (holds_vector [holds_tensor (ServiceTensor (0::nat) (0::nat)),
                                       holds_tensor (ServiceTensor 1 0)]))
   \<and> \<not> ok (fst (transfer_back example_externals (service \<lparr>service = [7, 66], thread_runs = 1\<rparr>)
                   (ServiceTensor 1 0) VALUE_NOT_SET))
   \<and> \<not> ok (fst (Materialize example_externals [1]
                   (Inr (holds_vector [holds_tensor (ServiceTensor 0 0),
                                       holds_tensor (ServiceTensor 1 0)]))
                   VALUE_NOT_SET \<lparr>service = [7, 66], thread_runs = 1\<rparr>))
   \<and> snd (Materialize example_externals [1]
            (Inr (holds_vector [holds_tensor (ServiceTensor 0 0),
                                holds_tensor (ServiceTensor 1 0)]))
            VALUE_NOT_SET \<lparr>service = [7, 66], thread_runs = 1\<rparr>) =
       kStruct [([], kTensor 7), ([], VALUE_NOT_SET)]"
proof -
  let ?v = "holds_vector [holds_tensor (ServiceTensor (0::nat) (0::nat)),
                          holds_tensor (ServiceTensor 1 0)]"
  let ?w = "\<lparr>service = [7, 66 :: nat], thread_runs = 1\<rparr>"
  have h1: "2 \<le> length (leaves ?v)" by simp
  have h2: "ServiceTensor 1 0 \<in> set (leaves ?v)" by simp
  have h3: "\<not> ok (fst (transfer_back example_externals (service ?w)
                        (ServiceTensor 1 0) VALUE_NOT_SET))"
    by (simp add: transfer_back_def example_externals_def InternalError_def)
  have h4: "\<not> holds_unimplemented ?v" by simp
  have m: "materialized example_externals (service ?w) ?v VALUE_NOT_SET =
             kStruct [([], kTensor 7), ([], VALUE_NOT_SET)]"
    by (simp add: transfer_back_def example_externals_def InternalError_def)
  from Materialize_fails_when_a_leaf_fails[OF h1 h2 h3, of "[1]" VALUE_NOT_SET] h1 h2 h3 h4 m
  show ?thesis by simp
qed

text \<open>
  C3 as stated fails: after the read of the second of two leaves has failed,
  \<open>Materialize\<close> returns a failure and the output message is a struct whose first
  element holds the first tensor; it is neither unset nor marked in any way.
\<close>

theorem Materialize_leaves_partial_output:
  "CreateExecutorValue example_externals (kStruct [(''a'', kTensor 7), (''b'', kTensor 66)])
     \<lparr>service = [], thread_runs = 0\<rparr> =
     (Inr (Inr (holds_vector [holds_tensor (ServiceTensor 0 0), holds_tensor (ServiceTensor 1 0)])),
      \<lparr>service = [7, 66], thread_runs = 1\<rparr>)
   \<and> Materialize example_externals []
       (Inr (holds_vector [holds_tensor (ServiceTensor 0 0), holds_tensor (ServiceTensor 1 0)]))
       VALUE_NOT_SET \<lparr>service = [7, 66], thread_runs = 1\<rparr> =
     (Error kInternal ''Error transferring tensor from XLA service to host. Message: gone'',
      kStruct [([], kTensor 7), ([], VALUE_NOT_SET)])"
  by (simp add: CreateExecutorValue_def ThreadRun_def EmbedTensorValue_def
                XLAExecutorValue_tensor_def XLAExecutorValue_struct_def
                Materialize_def Wait_def WaitAll_def run_task_def transfer_back_def
                add_task_def InternalError_def example_externals_def)

section \<open>The round trip\<close>

lemma extends_refl: "extends ext s s"
  by (simp add: extends_def)

lemma extends_trans: "extends ext s s' \<Longrightarrow> extends ext s' s'' \<Longrightarrow> extends ext s s''"
  by (simp add: extends_def)

lemma transfer_back_stable:
  assumes "ok (fst (transfer_back ext s t slot0))" and "extends ext s s'"
  shows "transfer_back ext s' t slot = transfer_back ext s t slot"
proof -
  from assms(1) obtain l where "Transfer ext (global_data t) s = Inr l"
    by (cases "Transfer ext (global_data t) s") (auto simp: transfer_back_def InternalError_def)
  with assms(2) have "Transfer ext (global_data t) s' = Transfer ext (global_data t) s"
    by (simp add: extends_def)
  then show ?thesis by (simp add: transfer_back_def)
qed

lemma materialized_stable:
  fixes ext :: "('p, 'x, 'h, 'd, 'l, 'g, 's) externals"
    and v :: "('g, 'd) XLAExecutorValue" and vs :: "('g, 'd) XLAExecutorValue list"
    and slot :: "('p, 'x) v0_Value"
  shows "extends ext s s' \<Longrightarrow> leaves_ok ext s v \<Longrightarrow>
           materialized ext s' v slot = materialized ext s v slot"
    and "extends ext s s' \<Longrightarrow> (\<forall>v \<in> set vs. leaves_ok ext s v) \<Longrightarrow>
           materialized_elements ext s' vs = materialized_elements ext s vs"
proof (induction ext s' v slot and ext s' vs rule: materialized_materialized_elements.induct)
  case (1 ext svc t slot)
  then show ?case by (simp add: leaves_ok_def transfer_back_stable)
next
  case (2 ext svc vs slot)
  then show ?case by (simp add: leaves_ok_def)
qed simp_all

lemma leaves_ok_stable:
  "extends ext s s' \<Longrightarrow> leaves_ok ext s v \<Longrightarrow> leaves_ok ext s' v"
  unfolding leaves_ok_def by (metis transfer_back_stable)

lemma EmbedTensorValue_round_trip:
  fixes ext :: "('p, 'x, 'h, 'd, 'l, 'g, 's) externals"
  assumes "service_round_trips ext" and "codec_round_trips ext p"
  shows "\<exists>t s'. EmbedTensorValue ext (kTensor p) s = (Inr (holds_tensor t), s')
           \<and> extends ext s s'
           \<and> transfer_back ext s' t VALUE_NOT_SET = (OkStatus, kTensor p)"
proof -
  from assms(2) obtain h lit h' where
    d: "DeserializeTensorValue ext (kTensor p) = Inr h"
    and l: "HostTensorToBorrowingLiteral ext h = (OkStatus, lit)"
    and b: "LiteralToHostTensor ext lit (tensor_dtype ext h) = (OkStatus, h')"
    and e: "SerializeTensorValue ext h' VALUE_NOT_SET = (OkStatus, kTensor p)"
    by (auto simp: codec_round_trips_def ok_iff split: sum.splits prod.splits)
  from assms(1) obtain g s' where
    t: "TransferToServer ext lit s = (Inr g, s')" and r: "Transfer ext g s' = Inr lit"
    unfolding service_round_trips_def by blast
  from assms(1) t have x: "extends ext s s'"
    unfolding service_round_trips_def extends_def by (metis snd_conv)
  have "EmbedTensorValue ext (kTensor p) s =
          (Inr (holds_tensor (ServiceTensor g (tensor_dtype ext h))), s')"
    by (simp add: EmbedTensorValue_def d l t XLAExecutorValue_tensor_def)
  moreover have "transfer_back ext s' (ServiceTensor g (tensor_dtype ext h)) VALUE_NOT_SET =
                   (OkStatus, kTensor p)"
    by (simp add: transfer_back_def r b e)
  ultimately show ?thesis using x by blast
qed

lemma created_round_trips:
  fixes ext :: "('p, 'x, 'h, 'd, 'l, 'g, 's) externals"
  shows "service_round_trips ext \<Longrightarrow> tensors_round_trip ext m \<Longrightarrow>
           \<exists>v s'. CreateValueAny ext m s = (Inr v, s') \<and> extends ext s s'
             \<and> \<not> holds_unimplemented v \<and> leaves_ok ext s' v
             \<and> materialized ext s' v VALUE_NOT_SET = rebuilt ext m"
    and "service_round_trips ext \<Longrightarrow> (\<forall>el \<in> set els. tensors_round_trip ext (snd el)) \<Longrightarrow>
           \<exists>vs s'. CreateValueAny_elements ext els acc s = (Inr (holds_vector (acc @ vs)), s')
             \<and> extends ext s s'
             \<and> (\<forall>v \<in> set vs. \<not> holds_unimplemented v \<and> leaves_ok ext s' v)
             \<and> materialized_elements ext s' vs =
                 map (\<lambda>el. (add_element ext, rebuilt ext (snd el))) els"
proof (induction ext m s and ext els acc s
       rule: CreateValueAny_CreateValueAny_elements.induct)
  case (1 ext p svc)
  then have "codec_round_trips ext p" by simp
  from EmbedTensorValue_round_trip[OF "1.prems"(1) this, of svc] obtain t s' where
    "EmbedTensorValue ext (kTensor p) svc = (Inr (holds_tensor t), s')"
    "extends ext svc s'" "transfer_back ext s' t VALUE_NOT_SET = (OkStatus, kTensor p)"
    by blast
  then show ?case by (auto simp: leaves_ok_def)
next
  case (2 ext els svc)
  from "2.IH"[OF "2.prems"(1)] "2.prems"(2) obtain vs s' where
    "CreateValueAny_elements ext els [] svc = (Inr (holds_vector ([] @ vs)), s')"
    "extends ext svc s'" "\<forall>v \<in> set vs. \<not> holds_unimplemented v \<and> leaves_ok ext s' v"
    "materialized_elements ext s' vs = map (\<lambda>el. (add_element ext, rebuilt ext (snd el))) els"
    by auto
  then show ?case by (auto simp: leaves_ok_def)
next
  case (7 ext acc svc)
  then show ?case by (simp add: XLAExecutorValue_struct_def extends_refl)
next
  case (8 ext el els acc svc)
  from "8.prems"(2) have rt: "tensors_round_trip ext (snd el)"
    and rts: "\<forall>el \<in> set els. tensors_round_trip ext (snd el)" by simp_all
  from "8.IH"(1)[OF "8.prems"(1) rt] obtain v s1 where
    c: "CreateValueAny ext (snd el) svc = (Inr v, s1)" and x1: "extends ext svc s1"
    and nu: "\<not> holds_unimplemented v" and lo: "leaves_ok ext s1 v"
    and mv: "materialized ext s1 v VALUE_NOT_SET = rebuilt ext (snd el)"
    by blast
  from "8.IH"(2)[OF c[symmetric] refl "8.prems"(1) rts] obtain vs s' where
    r: "CreateValueAny_elements ext els (acc @ [v]) s1 = (Inr (holds_vector ((acc @ [v]) @ vs)), s')"
    and x2: "extends ext s1 s'"
    and g: "\<forall>v \<in> set vs. \<not> holds_unimplemented v \<and> leaves_ok ext s' v"
    and mvs: "materialized_elements ext s' vs =
                map (\<lambda>el. (add_element ext, rebuilt ext (snd el))) els"
    by blast
  have "CreateValueAny_elements ext (el # els) acc svc = (Inr (holds_vector (acc @ (v # vs))), s')"
    using c r by simp
  moreover have "extends ext svc s'" using x1 x2 by (rule extends_trans)
  moreover have "\<forall>u \<in> set (v # vs). \<not> holds_unimplemented u \<and> leaves_ok ext s' u"
    using nu g leaves_ok_stable[OF x2 lo] by simp
  moreover have "materialized_elements ext s' (v # vs) =
                   map (\<lambda>el. (add_element ext, rebuilt ext (snd el))) (el # els)"
    using mvs mv materialized_stable(1)[OF x2 lo, of VALUE_NOT_SET] by simp
  ultimately show ?case by blast
qed simp_all


lemma rebuilt_plain: "plain_elements ext m \<Longrightarrow> rebuilt ext m = m"
proof (induction ext m rule: rebuilt.induct)
  case (1 ext els)
  have "map (\<lambda>el. (add_element ext, rebuilt ext (snd el))) els = els"
  proof (rule map_idI)
    fix el
    assume "el \<in> set els"
    with 1 show "(add_element ext, rebuilt ext (snd el)) = el" by (cases el) auto
  qed
  then show ?case by simp
qed simp_all

text \<open>
  C1. Assume that the service round-trips and that the message \<open>m\<close> is made of tensors
  and structs whose tensors the codec round-trips. Then the future returned by
  \<open>CreateExecutorValue\<close> materializes, into a fresh output message and in whatever
  order the units complete, to \<open>rebuilt ext m\<close> with an OK status. For a tensor message
  this is \<open>m\<close> itself. For a struct message it is the struct whose element values are
  the round trips of the element values of \<open>m\<close>, one for one and in the same order;
  besides its value, each output element carries what a newly added element carries, so
  the output is \<open>m\<close> itself when the elements of \<open>m\<close> carry nothing more.
\<close>

theorem create_then_materialize_round_trip:
  fixes ext :: "('p, 'x, 'h, 'd, 'l, 'g, 's) externals"
  assumes "service_round_trips ext" and "tensors_round_trip ext m"
  shows "\<exists>future w'. CreateExecutorValue ext m w = (Inr future, w')
           \<and> Materialize ext sched future VALUE_NOT_SET w' = (OkStatus, rebuilt ext m)
           \<and> (plain_elements ext m \<longrightarrow> rebuilt ext m = m)"
proof -
  from created_round_trips(1)[OF assms, of "service w"] obtain v s' where
    c: "CreateValueAny ext m (service w) = (Inr v, s')"
    and nu: "\<not> holds_unimplemented v" and lo: "leaves_ok ext s' v"
    and mv: "materialized ext s' v VALUE_NOT_SET = rebuilt ext m"
    by blast
  let ?w' = "w\<lparr>service := s', thread_runs := Suc (thread_runs w)\<rparr>"
  let ?M = "Materialize ext sched (Inr v) VALUE_NOT_SET ?w'"
  have cr: "CreateExecutorValue ext m w = (Inr (Inr v), ?w')"
    by (simp add: CreateExecutorValue_def ThreadRun_def c)
  have "\<forall>t \<in> set (units_of v (length (mutable_struct (VALUE_NOT_SET :: ('p, 'x) v0_Value)))).
          fst t \<in> set (leaves v)"
    using units_leaves(1)[of v 0] by (metis image_eqI list.set_map mutable_struct.simps(2) list.size(3))
  with lo have "ok (fst ?M)"
    unfolding Materialize_resolved(2)[OF nu] leaves_ok_def by simp
  then have "fst ?M = OkStatus" by (simp add: ok_iff)
  moreover have "snd ?M = rebuilt ext m"
    using Materialize_resolved(1)[OF nu, of ext sched VALUE_NOT_SET ?w'] mv by simp
  ultimately have "?M = (OkStatus, rebuilt ext m)" by (metis prod.collapse)
  with cr rebuilt_plain[of ext m] show ?thesis by blast
qed

theorem create_then_materialize_round_trip_witness:
  "service_round_trips reliable_externals
   \<and> tensors_round_trip reliable_externals
       (kStruct [([], kTensor 1), ([], kStruct [([], kTensor 2), ([], kTensor 3)])])
   \<and> plain_elements reliable_externals
       (kStruct [([], kTensor 1), ([], kStruct [([], kTensor 2), ([], kTensor 3)])])
   \<and> (\<exists>future w'.
        CreateExecutorValue reliable_externals
          (kStruct [([], kTensor 1), ([], kStruct [([], kTensor 2), ([], kTensor 3)])])
          \<lparr>service = [], thread_runs = 0\<rparr> = (Inr future, w')
        \<and> Materialize reliable_externals [2, 0] future VALUE_NOT_SET w' =
            (OkStatus, kStruct [([], kTensor 1), ([], kStruct [([], kTensor 2), ([], kTensor 3)])]))"
proof -
  let ?m = "kStruct [([], kTensor 1), ([], kStruct [([], kTensor 2), ([], kTensor (3::nat))])]
              :: (nat, string) v0_Value"
  have h1: "service_round_trips reliable_externals"
    by (simp add: service_round_trips_def reliable_externals_def example_externals_def nth_append)
  have h2: "tensors_round_trip reliable_externals ?m"
    by (simp add: codec_round_trips_def reliable_externals_def example_externals_def)
  have h3: "plain_elements reliable_externals ?m"
    by (simp add: reliable_externals_def example_externals_def)
  from create_then_materialize_round_trip[OF h1 h2, of "\<lparr>service = [], thread_runs = 0\<rparr>" "[2, 0]"] h1 h2 h3
  show ?thesis by auto
qed

section \<open>The empty struct\<close>

text \<open>
  C10. For the struct message with zero elements \<open>CreateValueAny\<close> succeeds with the
  struct value with zero children and does not touch the service. Materializing that
  value registers no unit in the task group and succeeds; the output message is a
  struct that holds the elements the message passed in already had, so for a fresh
  (unset) output message it is the struct with zero elements, not an unset message.
\<close>

theorem empty_struct:
  "CreateValueAny ext (kStruct []) svc = (Inr (XLAExecutorValue_struct []), svc)
   \<and> MaterializeXLAValue ext (XLAExecutorValue_struct []) addr value_pb tasks =
       (OkStatus, kStruct (mutable_struct value_pb), tasks)
   \<and> Materialize ext sched (Inr (XLAExecutorValue_struct [])) value_pb w =
       (OkStatus, kStruct (mutable_struct value_pb))
   \<and> Materialize ext sched (Inr (XLAExecutorValue_struct [])) VALUE_NOT_SET w =
       (OkStatus, kStruct [])"
  by (simp add: XLAExecutorValue_struct_def Materialize_def Wait_def WaitAll_def)

end
